theory Spec2Isabelle
  imports Main "HOL-Library.Word" "HOL-Library.Product_Lexorder"
begin

unbundle bit_operations_syntax

section \<open>The io_uring source of lesson 9 (io_uring_gsource.c)\<close>

text \<open>
  The lesson exists in two revisions with the same function names.  The revised file is
  modelled under the source's names; where the first revision differs, its function
  carries the suffix \<open>_rev1\<close>.  \<open>prepare\<close>, \<open>check\<close> and \<open>io_uring_source_new\<close>
  are the same text in both.
\<close>

subsection \<open>C types\<close>

type_synonym gint = "32 word"      \<comment> \<open>\<open>int\<close>, read with \<open>sint\<close>\<close>
type_synonym guint = "32 word"     \<comment> \<open>\<open>unsigned\<close>\<close>
type_synonym gushort = "16 word"
type_synonym gpointer = "64 word"  \<comment> \<open>an address on an LP64 platform; \<open>0\<close> is \<open>NULL\<close>\<close>

text \<open>
  GLib's headers are not part of the repository.  Its conversion macros on an LP64
  platform: \<open>GPOINTER_TO_INT(p)\<close> is \<open>((gint) (glong) (p))\<close>, a 32-bit \<open>int\<close> that
  keeps the low 32 bits of the address, and \<open>GINT_TO_POINTER(i)\<close> is
  \<open>((gpointer) (glong) (i))\<close>, which sign-extends.  \<open>G_IO_IN\<close> is \<open>POLLIN\<close> (1) and
  liburing's \<open>IOSQE_IO_LINK\<close> is bit 2 of an entry's flags.
\<close>

definition GPOINTER_TO_INT :: "gpointer \<Rightarrow> gint" where
  "GPOINTER_TO_INT p = ucast p"

definition GINT_TO_POINTER :: "gint \<Rightarrow> gpointer" where
  "GINT_TO_POINTER i = scast i"

definition G_IO_IN :: gushort where
  "G_IO_IN = 1"

definition IOSQE_IO_LINK :: "8 word" where
  "IOSQE_IO_LINK = 4"

record GPollFD =
  fd :: gint
  events :: gushort
  revents :: gushort

subsection \<open>The rings\<close>

text \<open>
  Modelled from the spec: liburing's \<open>struct io_uring\<close> and the inline helpers the
  lesson calls (\<open>io_uring_for_each_cqe\<close>, \<open>io_uring_cq_advance\<close>,
  \<open>io_uring_get_sqe\<close>, \<open>io_uring_prep_write\<close>, \<open>io_uring_prep_close\<close>,
  \<open>io_uring_sqe_set_data\<close>, \<open>io_uring_cqe_get_data\<close>) are not part of the
  repository.  The spec gives the two rings as fixed-capacity circular buffers shared with
  the kernel, a submission entry as \<open>{opcode, fd, buffer-ptr+len, offset, tag, link-flag}\<close>
  and a completion entry as a tag with a signed result code.  Cursors are free-running
  unsigned 32-bit counters; a slot index is the cursor masked with \<open>entries - 1\<close>.
\<close>

datatype sqe_opcode = IORING_OP_NOP | IORING_OP_WRITE | IORING_OP_CLOSE

record io_uring_sqe =
  opcode :: sqe_opcode
  sqe_flags :: "8 word"
  sqe_fd :: gint
  off :: "64 word"
  addr :: gpointer
  len :: guint
  sqe_user_data :: gpointer

record io_uring_cqe =
  user_data :: gpointer
  res :: gint

record io_uring =
  sq_khead :: guint          \<comment> \<open>submission ring, consumer cursor (the kernel's)\<close>
  sq_ktail :: guint          \<comment> \<open>submission ring, producer cursor as published\<close>
  sqe_tail :: guint          \<comment> \<open>submission ring, producer cursor of the application\<close>
  sq_ring_mask :: guint
  sq_ring_entries :: guint
  sqes :: "io_uring_sqe list"
  cq_khead :: guint          \<comment> \<open>completion ring, consumer cursor (the application's)\<close>
  cq_ktail :: guint          \<comment> \<open>completion ring, producer cursor (the kernel's)\<close>
  cq_ring_mask :: guint
  cqes :: "io_uring_cqe list"
  ring_fd :: gint


definition sq_wf :: "io_uring \<Rightarrow> bool" where
  "sq_wf r = (length (sqes r) = unat (sq_ring_entries r)
              \<and> sq_ring_mask r = sq_ring_entries r - 1
              \<and> 0 < unat (sq_ring_entries r) \<and> unat (sq_ring_entries r) \<le> 32768
              \<and> unat (sqe_tail r - sq_khead r) \<le> unat (sq_ring_entries r))"

definition cqe_at :: "io_uring \<Rightarrow> guint \<Rightarrow> io_uring_cqe" where
  "cqe_at r head = cqes r ! unat (head AND cq_ring_mask r)"

definition cq_ready :: "io_uring \<Rightarrow> nat" where
  "cq_ready r = unat (cq_ktail r - cq_khead r)"

definition cq_visible :: "io_uring \<Rightarrow> io_uring_cqe list" where
  "cq_visible r = map (\<lambda>i. cqe_at r (cq_khead r + of_nat i)) [0..<cq_ready r]"

definition io_uring_cq_advance :: "io_uring \<Rightarrow> guint \<Rightarrow> io_uring" where
  "io_uring_cq_advance r nr = r\<lparr>cq_khead := cq_khead r + nr\<rparr>"

definition io_uring_cqe_get_data :: "io_uring_cqe \<Rightarrow> gpointer" where
  "io_uring_cqe_get_data cqe = user_data cqe"

subsection \<open>What a run does, as a trace\<close>

datatype event =
    Print_op_failed gint              \<comment> \<open>"[io_uring] Operation failed", with \<open>-res\<close>\<close>
  | Print_op_completed gint           \<comment> \<open>"[io_uring] Operation completed: res bytes"\<close>
  | G_strdup gpointer                  \<comment> \<open>the copy is allocated at this address\<close>
  | G_free gpointer
  | Cq_advance guint
  | Callback_invoked
  | G_source_new
  | Printerr_init_failed gint         \<comment> \<open>"[Error] Failed to initialize io_uring"\<close>
  | G_source_unref
  | Print_finalizing                  \<comment> \<open>"[Cleanup] Finalizing io_uring source"\<close>
  | Io_uring_queue_exit
  | Print_init_ok
  | G_source_add_poll gint
  | Printerr_open_failed
  | Print_opening gint
  | Printerr_get_sqe_failed           \<comment> \<open>"[Error] Failed to get SQE"\<close>
  | Close_fd gint
  | Print_warning_sync_close
  | Print_prepared "64 word"
  | Printerr_submit_failed gint
  | Print_submitted gint
  | G_main_loop_new
  | G_main_loop_unref
  | Printerr_create_failed            \<comment> \<open>"Failed to create io_uring source"\<close>
  | G_source_set_callback
  | G_source_attach
  | Printerr_submit_write_failed      \<comment> \<open>"Failed to submit write operation"\<close>
  | G_main_loop_run

record IoUringSource =
  ref_count :: nat
  ring :: io_uring
  poll_fd :: GPollFD

subsection \<open>prepare and check\<close>

text \<open>\<open>*timeout = -1; return FALSE;\<close>: the result is the return value and the timeout.\<close>

definition io_uring_source_prepare :: "IoUringSource \<Rightarrow> bool \<times> gint" where
  "io_uring_source_prepare src = (False, - 1)"

definition io_uring_source_check :: "IoUringSource \<Rightarrow> bool" where
  "io_uring_source_check src = (revents (poll_fd src) AND G_IO_IN \<noteq> 0)"

subsection \<open>dispatch\<close>

text \<open>The body of the loop of the first revision, after \<open>count++\<close>.\<close>

definition process_cqe_rev1 :: "io_uring_cqe \<Rightarrow> event list" where
  "process_cqe_rev1 cqe =
     [if res cqe <s 0 then Print_op_failed (- res cqe) else Print_op_completed (res cqe)]
     @ (let op_data = io_uring_cqe_get_data cqe
        in if op_data \<noteq> 0 then [G_free op_data] else [])"

text \<open>The body of the loop of the revised file, after \<open>count++\<close>.\<close>

definition process_cqe :: "io_uring_cqe \<Rightarrow> event list" where
  "process_cqe cqe =
     [if res cqe <s 0 then Print_op_failed (- res cqe) else Print_op_completed (res cqe)]
     @ (let op_data = io_uring_cqe_get_data cqe
        in if op_data \<noteq> 0 \<and> 1024 <s GPOINTER_TO_INT op_data then [G_free op_data] else [])"

text \<open>
  \<open>io_uring_for_each_cqe(&ring, head, cqe) { count++; body }\<close>: \<open>head\<close> starts at the
  consumer cursor and runs up to the producer cursor; the loop does not move the consumer
  cursor.  The body is a parameter, since the two revisions differ in nothing else.
\<close>

function for_each_cqe ::
  "(io_uring_cqe \<Rightarrow> event list) \<Rightarrow> io_uring \<Rightarrow> guint \<Rightarrow> guint \<Rightarrow> event list
     \<Rightarrow> guint \<times> event list" where
  "for_each_cqe body r head count evs =
     (if head \<noteq> cq_ktail r
      then for_each_cqe body r (head + 1) (count + 1) (evs @ body (cqe_at r head))
      else (count, evs))"
  by pat_completeness auto
termination
proof (relation "measure (\<lambda>(body, r, head, count, evs). unat (cq_ktail r - head))")
  show "wf (measure (\<lambda>(body, r, head, count, evs). unat (cq_ktail r - head)))"
    by simp
next
  fix body :: "io_uring_cqe \<Rightarrow> event list" and r :: io_uring and head count :: guint
    and evs :: "event list"
  assume ne: "head \<noteq> cq_ktail r"
  have d: "cq_ktail r - head \<noteq> 0" using ne by simp
  have e: "cq_ktail r - (head + 1) = (cq_ktail r - head) - 1" by simp
  have "unat (cq_ktail r - (head + 1)) = unat (cq_ktail r - head) - 1"
    unfolding e by (rule unat_minus_one [OF d])
  moreover have "0 < unat (cq_ktail r - head)" using d by (simp add: unat_gt_0)
  ultimately show "((body, r, head + 1, count + 1, evs @ body (cqe_at r head)),
                    (body, r, head, count, evs))
                   \<in> measure (\<lambda>(body, r, head, count, evs). unat (cq_ktail r - head))"
    by simp
qed

declare for_each_cqe.simps [simp del]

text \<open>
  The rest of dispatch: mark the entries seen, then call the source's callback if one is
  set.  The callback is a \<open>GSourceFunc\<close>: it gets the user data and returns whether the
  source stays attached; \<open>'u\<close> is the state the user data points to.
  \<open>G_SOURCE_CONTINUE\<close> is \<open>TRUE\<close>.
\<close>

definition dispatch_with ::
  "(io_uring_cqe \<Rightarrow> event list) \<Rightarrow> IoUringSource \<Rightarrow> ('u \<Rightarrow> bool \<times> 'u) option \<Rightarrow> 'u
     \<Rightarrow> IoUringSource \<times> event list \<times> 'u \<times> bool" where
  "dispatch_with body src callback udata =
     (let (count, evs) = for_each_cqe body (ring src) (cq_khead (ring src)) 0 [];
          src' = src\<lparr>ring := io_uring_cq_advance (ring src) count\<rparr>;
          evs' = evs @ [Cq_advance count]
      in case callback of
           Some cb \<Rightarrow> (let (keep, udata') = cb udata
                       in (src', evs' @ [Callback_invoked], udata', keep))
         | None \<Rightarrow> (src', evs', udata, True))"


definition io_uring_source_dispatch ::
  "IoUringSource \<Rightarrow> ('u \<Rightarrow> bool \<times> 'u) option \<Rightarrow> 'u
     \<Rightarrow> IoUringSource \<times> event list \<times> 'u \<times> bool" where
  "io_uring_source_dispatch = dispatch_with process_cqe"

text \<open>
  The callback the revised \<open>main\<close> installs.  Quitting the main loop is recorded in
  the state.  Both counters are \<open>int\<close>: the increment wraps at \<open>INT_MAX\<close>, and the
  comparison is signed.
\<close>

record CompletionState =
  expected_completions :: gint
  completed_count :: gint
  quit_requested :: bool

definition on_operation_complete :: "CompletionState \<Rightarrow> bool \<times> CompletionState" where
  "on_operation_complete state =
     (let state' = state\<lparr>completed_count := completed_count state + 1\<rparr>
      in if expected_completions state' \<le>s completed_count state'
         then (False, state'\<lparr>quit_requested := True\<rparr>)
         else (True, state'))"

subsection \<open>finalize, and releasing a source\<close>

definition io_uring_source_finalize :: "IoUringSource \<Rightarrow> event list" where
  "io_uring_source_finalize src = [Print_finalizing, Io_uring_queue_exit]"

text \<open>
  Modelled from the spec: GLib's \<open>g_source_new\<close> and \<open>g_source_unref\<close> are not part
  of the repository.  The spec gives a source a reference count and a finalize hook that
  runs once, when the source is released for good: a new source has one reference, and
  dropping the last one runs the hook and frees the source.
\<close>

definition g_source_unref :: "IoUringSource \<Rightarrow> IoUringSource option \<times> event list" where
  "g_source_unref src =
     (if ref_count src \<le> 1 then (None, G_source_unref # io_uring_source_finalize src)
      else (Some (src\<lparr>ref_count := ref_count src - 1\<rparr>), [G_source_unref]))"

subsection \<open>io_uring_source_new\<close>

text \<open>
  \<open>g_source_new\<close> returns zeroed memory.  What \<open>io_uring_queue_init_params\<close> answers
  is an input: its return value \<open>ret\<close>, and the ring \<open>kring\<close> it sets up when it
  succeeds.  \<open>NULL\<close> is \<open>None\<close>.
\<close>

definition zeroed_ring :: io_uring where
  "zeroed_ring = \<lparr>sq_khead = 0, sq_ktail = 0, sqe_tail = 0, sq_ring_mask = 0,
     sq_ring_entries = 0, sqes = [], cq_khead = 0, cq_ktail = 0, cq_ring_mask = 0,
     cqes = [], ring_fd = 0\<rparr>"

definition g_source_new :: IoUringSource where
  "g_source_new = \<lparr>ref_count = 1, ring = zeroed_ring,
     poll_fd = \<lparr>fd = 0, events = 0, revents = 0\<rparr>\<rparr>"

definition io_uring_source_new :: "gint \<Rightarrow> io_uring \<Rightarrow> IoUringSource option \<times> event list" where
  "io_uring_source_new ret kring =
     (let uring_source = g_source_new
      in if ret <s 0
         then (None, [G_source_new, Printerr_init_failed (- ret)]
                     @ snd (g_source_unref uring_source))
         else (Some (uring_source\<lparr>ring := kring,
                 poll_fd := \<lparr>fd = ring_fd kring, events = G_IO_IN, revents = 0\<rparr>\<rparr>),
               [G_source_new, Print_init_ok, G_source_add_poll (ring_fd kring)]))"

subsection \<open>submit_write_operation\<close>

text \<open>
  \<open>io_uring_get_sqe\<close>: the next free submission slot, or \<open>NULL\<close> when the ring is full.
  The slot is returned as its index in \<open>sqes\<close>.
\<close>

definition io_uring_get_sqe :: "io_uring \<Rightarrow> nat option \<times> io_uring" where
  "io_uring_get_sqe r =
     (let head = sq_khead r; next = sqe_tail r + 1
      in if next - head \<le> sq_ring_entries r
         then (Some (unat (sqe_tail r AND sq_ring_mask r)), r\<lparr>sqe_tail := next\<rparr>)
         else (None, r))"

definition io_uring_prep_rw ::
  "sqe_opcode \<Rightarrow> io_uring_sqe \<Rightarrow> gint \<Rightarrow> gpointer \<Rightarrow> guint \<Rightarrow> 64 word \<Rightarrow> io_uring_sqe" where
  "io_uring_prep_rw op sqe fd' addr' len' offset =
     sqe\<lparr>opcode := op, sqe_flags := 0, sqe_fd := fd', off := offset, addr := addr', len := len'\<rparr>"

definition io_uring_prep_write ::
  "io_uring_sqe \<Rightarrow> gint \<Rightarrow> gpointer \<Rightarrow> guint \<Rightarrow> 64 word \<Rightarrow> io_uring_sqe" where
  "io_uring_prep_write sqe fd' buf nbytes offset =
     io_uring_prep_rw IORING_OP_WRITE sqe fd' buf nbytes offset"

definition io_uring_prep_close :: "io_uring_sqe \<Rightarrow> gint \<Rightarrow> io_uring_sqe" where
  "io_uring_prep_close sqe fd' = io_uring_prep_rw IORING_OP_CLOSE sqe fd' 0 0 0"

definition io_uring_sqe_set_data :: "io_uring_sqe \<Rightarrow> gpointer \<Rightarrow> io_uring_sqe" where
  "io_uring_sqe_set_data sqe data = sqe\<lparr>sqe_user_data := data\<rparr>"

text \<open>
  \<open>io_uring_submit\<close> publishes the producer cursor and enters the kernel.  The kernel's
  answer \<open>submitted\<close> is an input: a negative error code, the entries staying queued, or
  the number of entries it consumed.
\<close>

definition io_uring_submit :: "io_uring \<Rightarrow> gint \<Rightarrow> io_uring" where
  "io_uring_submit r submitted =
     (let r' = r\<lparr>sq_ktail := sqe_tail r\<rparr>
      in if submitted <s 0 then r' else r'\<lparr>sq_khead := sq_khead r' + submitted\<rparr>)"

text \<open>
  The revised \<open>submit_write_operation\<close>.  The environment's answers are inputs:
  \<open>open_ret\<close> is what \<open>open\<close> returns, \<open>buffer\<close> the address \<open>g_strdup\<close> returns,
  \<open>submitted\<close> what \<open>io_uring_submit\<close> returns.  \<open>length\<close> is a \<open>size_t\<close>;
  \<open>io_uring_prep_write\<close> takes it as \<open>unsigned\<close>.
\<close>

definition submit_write_operation ::
  "IoUringSource \<Rightarrow> gint \<Rightarrow> gpointer \<Rightarrow> 64 word \<Rightarrow> gint \<Rightarrow> IoUringSource \<times> event list \<times> bool" where
  "submit_write_operation uring_source open_ret buffer length' submitted =
     (let fd' = open_ret
      in if fd' <s 0 then (uring_source, [Printerr_open_failed], False)
         else
           let evs0 = [Print_opening fd', G_strdup buffer]
           in case io_uring_get_sqe (ring uring_source) of
                (None, r1) \<Rightarrow>
                  (uring_source\<lparr>ring := r1\<rparr>,
                   evs0 @ [Printerr_get_sqe_failed, Close_fd fd', G_free buffer], False)
              | (Some i, r1) \<Rightarrow>
                  let sqe1 = io_uring_prep_write (sqes r1 ! i) fd' buffer (ucast length') 0;
                      sqe2 = io_uring_sqe_set_data sqe1 buffer;
                      sqe3 = sqe2\<lparr>sqe_flags := sqe_flags sqe2 OR IOSQE_IO_LINK\<rparr>;
                      r2 = r1\<lparr>sqes := (sqes r1)[i := sqe3]\<rparr>;
                      (r4, evs1) =
                        (case io_uring_get_sqe r2 of
                           (Some j, r3) \<Rightarrow>
                             (r3\<lparr>sqes := (sqes r3)[j :=
                                  io_uring_sqe_set_data (io_uring_prep_close (sqes r3 ! j) fd')
                                    (GINT_TO_POINTER fd')]\<rparr>, [])
                         | (None, r3) \<Rightarrow> (r3, [Print_warning_sync_close, Close_fd fd']));
                      evs2 = evs0 @ evs1 @ [Print_prepared length'];
                      r5 = io_uring_submit r4 submitted
                  in if submitted <s 0
                     then (uring_source\<lparr>ring := r5\<rparr>,
                           evs2 @ [Printerr_submit_failed (- submitted), Close_fd fd',
                                   G_free buffer], False)
                     else (uring_source\<lparr>ring := r5\<rparr>,
                           evs2 @ [Print_submitted submitted], True))"

text \<open>
  The kernel taking \<open>n\<close> queued entries off the submission ring: it moves the consumer
  cursor, which is what frees slots for \<open>io_uring_get_sqe\<close>.
\<close>

definition kernel_consume :: "guint \<Rightarrow> io_uring \<Rightarrow> io_uring" where
  "kernel_consume n r = r\<lparr>sq_khead := sq_khead r + n\<rparr>"

definition sq_pending :: "io_uring \<Rightarrow> nat" where
  "sq_pending r = unat (sqe_tail r - sq_khead r)"

definition sq_full :: "io_uring \<Rightarrow> bool" where
  "sq_full r = (sq_pending r = unat (sq_ring_entries r))"

subsection \<open>main\<close>

text \<open>
  The revised \<open>main\<close> up to the point where it either returns or calls
  \<open>g_main_loop_run\<close>: the result is the exit status, or \<open>None\<close> once the loop runs
  (what follows depends on the iterations).
\<close>

definition main ::
  "gint \<Rightarrow> io_uring \<Rightarrow> gint \<Rightarrow> gpointer \<Rightarrow> 64 word \<Rightarrow> gint \<Rightarrow> int option \<times> event list" where
  "main init_ret kring open_ret buffer length' submitted =
     (case io_uring_source_new init_ret kring of
        (None, evs1) \<Rightarrow>
          (Some 1, [G_main_loop_new] @ evs1 @ [Printerr_create_failed, G_main_loop_unref])
      | (Some uring_source, evs1) \<Rightarrow>
          let evs2 = [G_main_loop_new] @ evs1 @ [G_source_set_callback, G_source_attach]
          in case submit_write_operation uring_source open_ret buffer length' submitted of
               (src', evs3, ok) \<Rightarrow>
                 if \<not> ok
                 then (Some 1, evs2 @ evs3
                         @ [Printerr_submit_write_failed, G_source_unref, G_main_loop_unref])
                 else (None, evs2 @ evs3 @ [G_main_loop_run]))"

subsection \<open>A run of the lesson\<close>

text \<open>
  The kernel posting one completion entry: it writes the slot under the producer cursor
  and moves that cursor.
\<close>

definition kernel_complete :: "io_uring_cqe \<Rightarrow> io_uring \<Rightarrow> io_uring" where
  "kernel_complete cqe r =
     r\<lparr>cqes := (cqes r)[unat (cq_ktail r AND cq_ring_mask r) := cqe],
       cq_ktail := cq_ktail r + 1\<rparr>"

text \<open>
  The ring \<open>io_uring_queue_init_params(8, ...)\<close> sets up: eight submission slots,
  sixteen completion slots, on descriptor 4.
\<close>

definition fresh_ring :: io_uring where
  "fresh_ring = \<lparr>sq_khead = 0, sq_ktail = 0, sqe_tail = 0, sq_ring_mask = 7,
     sq_ring_entries = 8,
     sqes = replicate 8 \<lparr>opcode = IORING_OP_NOP, sqe_flags = 0, sqe_fd = 0, off = 0,
                           addr = 0, len = 0, sqe_user_data = 0\<rparr>,
     cq_khead = 0, cq_ktail = 0, cq_ring_mask = 15,
     cqes = replicate 16 \<lparr>user_data = 0, res = 0\<rparr>, ring_fd = 4\<rparr>"

text \<open>
  The source after \<open>submit_write_operation\<close> put a write of 232 bytes from \<open>buffer\<close>
  and the close of descriptor \<open>fd'\<close> on the ring, and the kernel completed both.
\<close>

definition completed_source :: "gpointer \<Rightarrow> gint \<Rightarrow> IoUringSource" where
  "completed_source buffer fd' =
     (case io_uring_source_new 0 fresh_ring of
        (Some src0, evs0) \<Rightarrow>
          (case submit_write_operation src0 fd' buffer 232 2 of
             (src1, evs1, ok) \<Rightarrow>
               src1\<lparr>ring := kernel_complete \<lparr>user_data = GINT_TO_POINTER fd', res = 0\<rparr>
                               (kernel_complete \<lparr>user_data = buffer, res = 232\<rparr> (ring src1)),
                     poll_fd := (poll_fd src1)\<lparr>revents := G_IO_IN\<rparr>\<rparr>)
      | (None, evs0) \<Rightarrow> g_source_new)"

text \<open>Two addresses \<open>g_strdup\<close> can return on x86-64 Linux.\<close>

definition buffer_low :: gpointer where
  "buffer_low = 0x55D540A3B2A0"

definition buffer_high :: gpointer where
  "buffer_high = 0x55D5C0A3B2A0"

definition initial_completion_state :: CompletionState where
  "initial_completion_state =
     \<lparr>expected_completions = 2, completed_count = 0, quit_requested = False\<rparr>"



text \<open>
  The same source when the poll wait returned before the kernel posted the two entries:
  \<open>revents\<close> holds no event for the ring descriptor.
\<close>

definition unpolled_source :: IoUringSource where
  "unpolled_source =
     (completed_source buffer_low 5)\<lparr>poll_fd := \<lparr>fd = 4, events = G_IO_IN, revents = 0\<rparr>\<rparr>"

text \<open>The source right after a successful \<open>io_uring_source_new\<close>, nothing queued.\<close>

definition fresh_source :: IoUringSource where
  "fresh_source =
     (case io_uring_source_new 0 fresh_ring of
        (Some src, evs) \<Rightarrow> src
      | (None, evs) \<Rightarrow> g_source_new)"

text \<open>
  A source whose submission ring is full: eight entries are queued and the kernel has
  consumed none of them (each \<open>io_uring_submit\<close> so far failed).
\<close>

definition full_source :: IoUringSource where
  "full_source =
     (case io_uring_source_new 0 (fresh_ring\<lparr>sqe_tail := 8, sq_ktail := 8\<rparr>) of
        (Some src, evs) \<Rightarrow> src
      | (None, evs) \<Rightarrow> g_source_new)"

section \<open>The context's dispatch order (lesson 3, priority_example.c)\<close>

text \<open>
  Modelled from the spec: the main context (GLib's \<open>GMainContext\<close>) is not part of the
  repository; the lessons only attach sources to it and print the order they expect.
  Section 4.3, step 5 of the spec: "collect all sources that are ready (from prepare or
  check); sort by (priority ascending, attachment-order ascending); invoke dispatch on
  each in that order".  A context holds its sources in attachment order; whether a source
  is ready in the iteration at hand is a field of the source.
\<close>

record source =
  src_name :: string
  priority :: int
  ready :: bool

definition attached :: "source list \<Rightarrow> (nat \<times> source) list" where
  "attached srcs = zip [0..<length srcs] srcs"

definition dispatch_key :: "nat \<times> source \<Rightarrow> int \<times> nat" where
  "dispatch_key p = (priority (snd p), fst p)"

definition dispatch_order :: "source list \<Rightarrow> (nat \<times> source) list" where
  "dispatch_order srcs = sort_key dispatch_key (filter (\<lambda>p. ready (snd p)) (attached srcs))"

text \<open>GLib's priority constants, as priority_example.c prints them.\<close>

definition G_PRIORITY_HIGH :: int where "G_PRIORITY_HIGH = - 100"
definition G_PRIORITY_DEFAULT :: int where "G_PRIORITY_DEFAULT = 0"
definition G_PRIORITY_HIGH_IDLE :: int where "G_PRIORITY_HIGH_IDLE = 100"
definition G_PRIORITY_DEFAULT_IDLE :: int where "G_PRIORITY_DEFAULT_IDLE = 200"
definition G_PRIORITY_LOW :: int where "G_PRIORITY_LOW = 300"

text \<open>
  The five sources \<open>main\<close> of priority_example.c attaches, in its order, all ready in
  one iteration.
\<close>

definition priority_example_sources :: "source list" where
  "priority_example_sources =
     [\<lparr>src_name = ''LOW'', priority = G_PRIORITY_LOW, ready = True\<rparr>,
      \<lparr>src_name = ''DEFAULT'', priority = G_PRIORITY_DEFAULT, ready = True\<rparr>,
      \<lparr>src_name = ''HIGH'', priority = G_PRIORITY_HIGH, ready = True\<rparr>,
      \<lparr>src_name = ''DEFAULT_IDLE'', priority = G_PRIORITY_DEFAULT_IDLE, ready = True\<rparr>,
      \<lparr>src_name = ''HIGH_IDLE'', priority = G_PRIORITY_HIGH_IDLE, ready = True\<rparr>]"

text \<open>
  The spec's own test: three sources of priority 0, attached in the order A, B, C, all
  ready in one iteration.
\<close>

definition equal_priority_sources :: "source list" where
  "equal_priority_sources =
     [\<lparr>src_name = ''A'', priority = 0, ready = True\<rparr>,
      \<lparr>src_name = ''B'', priority = 0, ready = True\<rparr>,
      \<lparr>src_name = ''C'', priority = 0, ready = True\<rparr>]"

section \<open>The thread-default stack (lesson 4, context_threading.c)\<close>

text \<open>
  Modelled from the spec: \<open>g_main_context_push_thread_default\<close>,
  \<open>g_main_context_pop_thread_default\<close> and \<open>g_main_context_get_thread_default\<close> are
  not part of the repository; \<open>context_owner_thread\<close> only calls them.  Section 4.5 of
  the spec: push and pop are scoped and nest (LIFO), "pop on a context that is not the
  current top is an error", and current "returns the top of the calling thread's stack, or
  a process-wide default if empty".
\<close>

type_synonym thread_id = nat
type_synonym context_id = nat

record thread_defaults =
  stacks :: "thread_id \<Rightarrow> context_id list"
  process_default :: context_id

datatype stack_error = Not_current_top

definition current :: "thread_id \<Rightarrow> thread_defaults \<Rightarrow> context_id" where
  "current t st = (case stacks st t of [] \<Rightarrow> process_default st | c # cs \<Rightarrow> c)"

definition push_default :: "thread_id \<Rightarrow> context_id \<Rightarrow> thread_defaults \<Rightarrow> thread_defaults" where
  "push_default t ctx st = st\<lparr>stacks := (stacks st)(t := ctx # stacks st t)\<rparr>"

definition pop_default ::
  "thread_id \<Rightarrow> context_id \<Rightarrow> thread_defaults \<Rightarrow> stack_error + thread_defaults" where
  "pop_default t ctx st =
     (case stacks st t of
        [] \<Rightarrow> Inl Not_current_top
      | c # cs \<Rightarrow> if c = ctx then Inr (st\<lparr>stacks := (stacks st)(t := cs)\<rparr>)
                  else Inl Not_current_top)"

text \<open>A run of pushes and pops by one thread stops at the first error.\<close>

datatype stack_op = Push context_id | Pop context_id

fun run_ops :: "thread_id \<Rightarrow> stack_op list \<Rightarrow> thread_defaults \<Rightarrow> stack_error + thread_defaults" where
  "run_ops t [] st = Inr st"
| "run_ops t (Push c # ops) st = run_ops t ops (push_default t c st)"
| "run_ops t (Pop c # ops) st =
     (case pop_default t c st of Inl e \<Rightarrow> Inl e | Inr st' \<Rightarrow> run_ops t ops st')"

text \<open>
  A run is balanced over the pushes still open (innermost first) when every pop names the
  innermost open push and none stays open at the end.
\<close>

fun balanced :: "stack_op list \<Rightarrow> context_id list \<Rightarrow> bool" where
  "balanced [] opened = (opened = [])"
| "balanced (Push c # ops) opened = balanced ops (c # opened)"
| "balanced (Pop c # ops) [] = False"
| "balanced (Pop c # ops) (d # opened) = (c = d \<and> balanced ops opened)"

text \<open>
  What \<open>context_owner_thread\<close> prints after "Match:": whether the thread default it
  reads back right after its push is its own context.
\<close>

definition context_owner_thread_match :: "thread_id \<Rightarrow> context_id \<Rightarrow> thread_defaults \<Rightarrow> bool" where
  "context_owner_thread_match t context st = (current t (push_default t context st) = context)"

text \<open>Replacing one thread's stack; the stacks of the other threads stay.\<close>

definition set_stack :: "thread_id \<Rightarrow> context_id list \<Rightarrow> thread_defaults \<Rightarrow> thread_defaults" where
  "set_stack t cs st = st\<lparr>stacks := (stacks st)(t := cs)\<rparr>"

text \<open>
  A state to run on: thread 1 has context 7 pushed, every other thread has an empty
  stack, and the process-wide default is context 0.
\<close>

definition example_defaults :: thread_defaults where
  "example_defaults = \<lparr>stacks = (\<lambda>t. if t = 1 then [7] else []), process_default = 0\<rparr>"

section \<open>Properties of the io_uring source\<close>

subsection \<open>prepare and check\<close>

lemma G_IO_IN_bit: "(w AND G_IO_IN \<noteq> 0) = bit w 0" for w :: gushort
  by (simp add: G_IO_IN_def and_one_eq bit_0 mod_2_eq_odd)

text \<open>
  C10: prepare reports not ready and sets the timeout to -1 for every source, whatever
  its state: it neither declares readiness nor bounds the poll wait.  Readiness comes from
  check alone, which answers from the bit \<open>G_IO_IN\<close> (bit 0) that the poll wait left in
  \<open>revents\<close> for the ring descriptor.
\<close>

theorem prepare_never_ready_no_timeout:
  "fst (io_uring_source_prepare src) = False
   \<and> sint (snd (io_uring_source_prepare src)) = - 1
   \<and> io_uring_source_check src = bit (revents (poll_fd src)) 0"
  by (simp add: io_uring_source_prepare_def io_uring_source_check_def G_IO_IN_bit)

subsection \<open>The loop of dispatch\<close>












subsection \<open>Which payloads dispatch frees\<close>

lemma GPOINTER_TO_INT_of_int: "GPOINTER_TO_INT (GINT_TO_POINTER i) = i"
  unfolding GPOINTER_TO_INT_def GINT_TO_POINTER_def
proof (rule bit_word_eqI)
  fix n :: nat
  assume "n < LENGTH(32)"
  then have "min 31 n = n" by simp
  then show "bit (ucast (scast i :: gpointer) :: gint) n = bit i n"
    using \<open>n < LENGTH(32)\<close> by (simp add: bit_simps)
qed

lemma GINT_TO_POINTER_null: "(GINT_TO_POINTER i = 0) = (i = 0)"
proof
  assume "GINT_TO_POINTER i = 0"
  then have "GPOINTER_TO_INT (GINT_TO_POINTER i) = GPOINTER_TO_INT 0" by simp
  then show "i = 0" by (simp add: GPOINTER_TO_INT_of_int) (simp add: GPOINTER_TO_INT_def)
next
  assume "i = 0"
  then show "GINT_TO_POINTER i = 0" by (simp add: GINT_TO_POINTER_def)
qed

lemma G_free_in_process_cqe:
  "(G_free p \<in> set (process_cqe cqe)) =
     (p = user_data cqe \<and> user_data cqe \<noteq> 0 \<and> 1024 < sint (GPOINTER_TO_INT (user_data cqe)))"
  by (auto simp add: process_cqe_def io_uring_cqe_get_data_def Let_def word_sless_alt)

text \<open>
  C9: the revised dispatch frees the payload of a drained entry if and only if it is
  non-null and its value read as an integer (\<open>GPOINTER_TO_INT\<close>: the low 32 bits,
  signed) exceeds 1024, and it frees nothing else.  In particular the close operation's
  entry, whose payload is the small descriptor value (at most 1024, the bound of the
  source's own test), is never freed; the same test lets a payload above 1024 through,
  descriptor or not.  Whether a write's buffer is freed depends on the numeric value of
  its address: of two non-null addresses, one is freed and the other is not.
\<close>

theorem payload_freed_iff_int_above_1024:
  "(G_free p \<in> set (process_cqe cqe)) =
     (p = user_data cqe \<and> user_data cqe \<noteq> 0 \<and> 1024 < sint (GPOINTER_TO_INT (user_data cqe)))
   \<and> (sint fd' \<le> 1024 \<longrightarrow>
        G_free p \<notin> set (process_cqe \<lparr>user_data = GINT_TO_POINTER fd', res = r\<rparr>))
   \<and> (1024 < sint fd' \<longrightarrow>
        G_free (GINT_TO_POINTER fd')
          \<in> set (process_cqe \<lparr>user_data = GINT_TO_POINTER fd', res = r\<rparr>))
   \<and> buffer_low \<noteq> 0 \<and> buffer_high \<noteq> 0
   \<and> G_free buffer_low \<in> set (process_cqe \<lparr>user_data = buffer_low, res = r\<rparr>)
   \<and> G_free buffer_high \<notin> set (process_cqe \<lparr>user_data = buffer_high, res = r\<rparr>)"
proof -
  have big: "GINT_TO_POINTER fd' \<noteq> 0" if "1024 < sint fd'"
  proof
    assume "GINT_TO_POINTER fd' = 0"
    then have "fd' = 0" by (simp add: GINT_TO_POINTER_null)
    with that show False by simp
  qed
  have lo: "sint (GPOINTER_TO_INT buffer_low) = 1084469920"
    by (simp add: GPOINTER_TO_INT_def buffer_low_def)
  have hi: "sint (GPOINTER_TO_INT buffer_high) = - 1063013728"
    by (simp add: GPOINTER_TO_INT_def buffer_high_def)
  have nz: "buffer_low \<noteq> 0" "buffer_high \<noteq> 0"
    by (simp_all add: buffer_low_def buffer_high_def)
  show ?thesis
    using big nz by (simp add: G_free_in_process_cqe GPOINTER_TO_INT_of_int lo hi)
qed

theorem payload_freed_iff_int_above_1024_witness:
  "sint (5 :: gint) \<le> 1024 \<and> 1024 < sint (1025 :: gint)
   \<and> G_free 5 \<notin> set (process_cqe \<lparr>user_data = GINT_TO_POINTER 5, res = 0\<rparr>)
   \<and> G_free (GINT_TO_POINTER 1025)
        \<in> set (process_cqe \<lparr>user_data = GINT_TO_POINTER 1025, res = 0\<rparr>)"
proof -
  have h1: "sint (5 :: gint) \<le> 1024" by simp
  have h2: "1024 < sint (1025 :: gint)" by simp
  show ?thesis
    using h1 h2 payload_freed_iff_int_above_1024 [of 5 "\<lparr>user_data = 0, res = 0\<rparr>" 5 0]
      payload_freed_iff_int_above_1024 [of 5 "\<lparr>user_data = 0, res = 0\<rparr>" 1025 0]
    by blast
qed

subsection \<open>check\<close>

text \<open>
  C4 (amended): check does not touch the completion ring at all, so it consumes nothing;
  it reports the source ready if and only if the poll wait left \<open>G_IO_IN\<close> in
  \<open>revents\<close> for the ring descriptor, whatever the ring holds at the time of the check.
\<close>

theorem check_reads_poll_result:
  "io_uring_source_check src = bit (revents (poll_fd src)) 0
   \<and> io_uring_source_check (src\<lparr>ring := r\<rparr>) = io_uring_source_check src"
  by (simp add: io_uring_source_check_def G_IO_IN_bit)

text \<open>
  C4 as stated fails: two entries are in the completion ring, \<open>revents\<close> is empty, and
  check reports not ready.
\<close>

theorem check_misses_nonempty_ring:
  "cq_ready (ring unpolled_source) = 2 \<and> \<not> io_uring_source_check unpolled_source"
  by code_simp

subsection \<open>The lifetime of a submitted buffer\<close>

text \<open>
  C2 is broken by the revised dispatch.  \<open>submit_write_operation\<close> copies the data to a
  buffer at an address whose low 32 bits read as a negative \<open>int\<close>, and the kernel
  completes the write and the close.  Dispatch drains both entries and moves the cursor
  past them without freeing the buffer, so nothing can free it later.  The first revision
  frees the buffer of the same entry.
\<close>

theorem high_address_buffer_never_freed:
  "fst (snd (submit_write_operation (the (fst (io_uring_source_new 0 fresh_ring)))
       5 buffer_high 232 2))
     = [Print_opening 5, G_strdup buffer_high, Print_prepared 232, Print_submitted 2]
   \<and> cq_visible (ring (completed_source buffer_high 5))
     = [\<lparr>user_data = buffer_high, res = 232\<rparr>, \<lparr>user_data = GINT_TO_POINTER 5, res = 0\<rparr>]
   \<and> fst (snd (io_uring_source_dispatch (completed_source buffer_high 5)
        (Some on_operation_complete) initial_completion_state))
     = [Print_op_completed 232, Print_op_completed 0, Cq_advance 2, Callback_invoked]
   \<and> cq_ready (ring (fst (io_uring_source_dispatch (completed_source buffer_high 5)
        (Some on_operation_complete) initial_completion_state))) = 0
   \<and> process_cqe_rev1 \<lparr>user_data = buffer_high, res = 232\<rparr>
     = [Print_op_completed 232, G_free buffer_high]"
  by code_simp

subsection \<open>The submission ring\<close>

lemma get_sqe_full:
  assumes "sq_wf r" and "sq_full r"
  shows "io_uring_get_sqe r = (None, r)"
proof -
  let ?d = "sqe_tail r - sq_khead r"
  have e: "sqe_tail r + 1 - sq_khead r = ?d + 1" by simp
  have d: "unat ?d = unat (sq_ring_entries r)"
    using assms(2) by (simp add: sq_full_def sq_pending_def)
  have le: "unat (sq_ring_entries r) \<le> 32768"
    using assms(1) by (simp add: sq_wf_def)
  have "unat (?d + 1) = unat ?d + 1"
    using d le by (simp add: unat_word_ariths)
  then have "\<not> ?d + 1 \<le> sq_ring_entries r"
    using d by (simp add: word_le_nat_alt)
  then show ?thesis
    by (simp add: io_uring_get_sqe_def Let_def e)
qed

lemma get_sqe_free:
  assumes "sq_wf r" and "sq_pending r < unat (sq_ring_entries r)"
  shows "io_uring_get_sqe r =
     (Some (unat (sqe_tail r AND sq_ring_mask r)), r\<lparr>sqe_tail := sqe_tail r + 1\<rparr>)"
proof -
  let ?d = "sqe_tail r - sq_khead r"
  have e: "sqe_tail r + 1 - sq_khead r = ?d + 1" by simp
  have d: "unat ?d < unat (sq_ring_entries r)"
    using assms(2) by (simp add: sq_pending_def)
  have le: "unat (sq_ring_entries r) \<le> 32768"
    using assms(1) by (simp add: sq_wf_def)
  have "unat (?d + 1) = unat ?d + 1"
    using d le by (simp add: unat_word_ariths)
  then have "?d + 1 \<le> sq_ring_entries r"
    using d by (simp add: word_le_nat_alt)
  then show ?thesis
    by (simp add: io_uring_get_sqe_def Let_def e)
qed

lemma pending_after_consume:
  assumes "sq_full r" and "0 < n" and "n \<le> sq_ring_entries r"
  shows "sq_pending (kernel_consume n r) = unat (sq_ring_entries r) - unat n"
    and "sq_pending (kernel_consume n r) < unat (sq_ring_entries r)"
proof -
  have d: "sqe_tail r - sq_khead r = sq_ring_entries r"
    using assms(1) by (simp add: sq_full_def sq_pending_def word_unat_eq_iff)
  have e1: "sqe_tail r - (sq_khead r + n) = (sqe_tail r - sq_khead r) - n" by simp
  have e2: "sqe_tail r - (sq_khead r + n) = sq_ring_entries r - n"
    unfolding e1 d ..
  have "sq_pending (kernel_consume n r) = unat (sqe_tail r - (sq_khead r + n))"
    by (simp add: sq_pending_def kernel_consume_def)
  then have "sq_pending (kernel_consume n r) = unat (sq_ring_entries r - n)"
    unfolding e2 .
  also have "\<dots> = unat (sq_ring_entries r) - unat n"
    using assms(3) by (simp add: unat_sub)
  finally show a: "sq_pending (kernel_consume n r) = unat (sq_ring_entries r) - unat n" .
  have "0 < unat n" using assms(2) by (simp add: word_less_nat_alt)
  moreover have "unat n \<le> unat (sq_ring_entries r)"
    using assms(3) by (simp add: word_le_nat_alt)
  moreover have "0 < unat (sq_ring_entries r)" using calculation by simp
  ultimately show "sq_pending (kernel_consume n r) < unat (sq_ring_entries r)"
    using a by simp
qed

lemma sq_wf_consume:
  assumes "sq_wf r" and "sq_full r" and "0 < n" and "n \<le> sq_ring_entries r"
  shows "sq_wf (kernel_consume n r)"
proof -
  have "sq_pending (kernel_consume n r) < unat (sq_ring_entries r)"
    using assms(2-4) by (rule pending_after_consume(2))
  then show ?thesis
    using assms(1) by (simp add: sq_wf_def sq_pending_def kernel_consume_def)
qed

lemma submit_no_slot:
  assumes "io_uring_get_sqe (ring src) = (None, ring src)" and "\<not> open_ret <s 0"
  shows "submit_write_operation src open_ret buffer length' submitted =
           (src, [Print_opening open_ret, G_strdup buffer, Printerr_get_sqe_failed,
                  Close_fd open_ret, G_free buffer], False)"
  using assms by (simp add: submit_write_operation_def Let_def)

lemma slot_in_range: "unat (x AND (7 :: guint)) < 8"
proof -
  have "x AND 7 \<le> 7" by (rule word_and_le1)
  then have "unat (x AND 7) \<le> unat (7 :: guint)" by (simp only: word_le_nat_alt)
  then show ?thesis by simp
qed

lemma next_slot_differs: "unat (t AND (7 :: guint)) \<noteq> unat ((t + 1) AND 7)"
proof
  assume "unat (t AND 7) = unat ((t + 1) AND 7)"
  then have "t AND 7 = (t + 1) AND 7" by (simp add: word_unat_eq_iff)
  then have "bit (t AND 7) 0 = bit ((t + 1) AND 7) 0" by simp
  then show False by (simp add: bit_and_iff bit_0 even_and_iff)
qed

lemma pending_after_get:
  assumes "sq_wf r" and "sq_pending r < unat (sq_ring_entries r)"
  shows "sq_pending (r\<lparr>sqe_tail := sqe_tail r + 1\<rparr>) = Suc (sq_pending r)"
proof -
  let ?d = "sqe_tail r - sq_khead r"
  have e: "sqe_tail r + 1 - sq_khead r = ?d + 1" by simp
  have le: "unat (sq_ring_entries r) \<le> 32768"
    using assms(1) by (simp add: sq_wf_def)
  have "unat (?d + 1) = unat ?d + 1"
    using assms(2) le by (simp add: unat_word_ariths sq_pending_def)
  then show ?thesis by (simp add: sq_pending_def e)
qed

lemma submit_two_slots:
  assumes wf: "sq_wf (ring src)" and e: "sq_ring_entries (ring src) = 8"
    and free: "sq_pending (ring src) + 2 \<le> 8" and fd: "\<not> open_ret <s 0"
  shows "(let X = submit_write_operation src open_ret buffer length' submitted;
             r' = ring (fst X);
             w = sqes r' ! unat (sqe_tail (ring src) AND 7);
             c = sqes r' ! unat ((sqe_tail (ring src) + 1) AND 7)
         in opcode w = IORING_OP_WRITE \<and> sqe_flags w = IOSQE_IO_LINK \<and> sqe_fd w = open_ret
            \<and> addr w = buffer \<and> len w = ucast length' \<and> off w = 0 \<and> sqe_user_data w = buffer
            \<and> opcode c = IORING_OP_CLOSE \<and> sqe_flags c = 0 \<and> sqe_fd c = open_ret
            \<and> sqe_user_data c = GINT_TO_POINTER open_ret
            \<and> sqe_tail r' = sqe_tail (ring src) + 2
            \<and> sq_ktail r' = sqe_tail (ring src) + 2
            \<and> snd (snd X) = (\<not> submitted <s 0)
            \<and> fst (snd X) =
                [Print_opening open_ret, G_strdup buffer, Print_prepared length']
                @ (if submitted <s 0
                   then [Printerr_submit_failed (- submitted), Close_fd open_ret, G_free buffer]
                   else [Print_submitted submitted]))"
proof -
  let ?r0 = "ring src"
  let ?i = "unat (sqe_tail ?r0 AND 7)"
  let ?j = "unat ((sqe_tail ?r0 + 1) AND 7)"
  let ?r1 = "?r0\<lparr>sqe_tail := sqe_tail ?r0 + 1\<rparr>"
  have m: "sq_ring_mask ?r0 = 7" using wf e by (simp add: sq_wf_def)
  have len: "length (sqes ?r0) = 8" using wf e by (simp add: sq_wf_def)
  have p0: "sq_pending ?r0 < unat (sq_ring_entries ?r0)" using free e by simp
  have g1: "io_uring_get_sqe ?r0 = (Some ?i, ?r1)"
    using get_sqe_free [OF wf p0] m by simp
  define W where "W = (io_uring_sqe_set_data
      (io_uring_prep_write (sqes ?r1 ! ?i) open_ret buffer (ucast length') 0) buffer)
      \<lparr>sqe_flags := sqe_flags (io_uring_sqe_set_data
          (io_uring_prep_write (sqes ?r1 ! ?i) open_ret buffer (ucast length') 0) buffer)
        OR IOSQE_IO_LINK\<rparr>"
  let ?r2 = "?r1\<lparr>sqes := (sqes ?r1)[?i := W]\<rparr>"
  have p1: "sq_pending ?r1 = Suc (sq_pending ?r0)"
    using wf p0 by (rule pending_after_get)
  have wf2: "sq_wf ?r2"
    using wf p1 free e by (simp add: sq_wf_def sq_pending_def)
  have p2: "sq_pending ?r2 < unat (sq_ring_entries ?r2)"
    using p1 free e by (simp add: sq_pending_def)
  let ?r3 = "?r2\<lparr>sqe_tail := sqe_tail ?r2 + 1\<rparr>"
  have g2: "io_uring_get_sqe ?r2 = (Some ?j, ?r3)"
    using get_sqe_free [OF wf2 p2] m by simp
  define C where "C = io_uring_sqe_set_data (io_uring_prep_close (sqes ?r3 ! ?j) open_ret)
      (GINT_TO_POINTER open_ret)"
  let ?r4 = "?r3\<lparr>sqes := (sqes ?r3)[?j := C]\<rparr>"
  let ?evs = "[Print_opening open_ret, G_strdup buffer, Print_prepared length']
      @ (if submitted <s 0
         then [Printerr_submit_failed (- submitted), Close_fd open_ret, G_free buffer]
         else [Print_submitted submitted])"
  have res: "submit_write_operation src open_ret buffer length' submitted =
      (src\<lparr>ring := io_uring_submit ?r4 submitted\<rparr>, ?evs, \<not> submitted <s 0)"
    using fd g1 g2
    by (simp add: submit_write_operation_def Let_def W_def C_def del: io_uring.simps)
  have s5: "sqes (io_uring_submit ?r4 submitted) = (sqes ?r0)[?i := W, ?j := C]"
    by (simp add: io_uring_submit_def Let_def)
  have t5: "sqe_tail (io_uring_submit ?r4 submitted) = sqe_tail ?r0 + 2"
    by (simp add: io_uring_submit_def Let_def)
  have k5: "sq_ktail (io_uring_submit ?r4 submitted) = sqe_tail ?r0 + 2"
    by (simp add: io_uring_submit_def Let_def)
  have i: "?i < 8" and j: "?j < 8" by (rule slot_in_range)+
  have ne: "?i \<noteq> ?j" by (rule next_slot_differs)
  have w: "(sqes ?r0)[?i := W, ?j := C] ! ?i = W"
    using i len ne by simp
  have c: "(sqes ?r0)[?i := W, ?j := C] ! ?j = C"
    using j len by simp
  have Wf: "opcode W = IORING_OP_WRITE \<and> sqe_flags W = IOSQE_IO_LINK \<and> sqe_fd W = open_ret
            \<and> addr W = buffer \<and> len W = ucast length' \<and> off W = 0 \<and> sqe_user_data W = buffer"
    by (simp add: W_def io_uring_sqe_set_data_def io_uring_prep_write_def io_uring_prep_rw_def)
  have Cf: "opcode C = IORING_OP_CLOSE \<and> sqe_flags C = 0 \<and> sqe_fd C = open_ret
            \<and> sqe_user_data C = GINT_TO_POINTER open_ret"
    by (simp add: C_def io_uring_sqe_set_data_def io_uring_prep_close_def io_uring_prep_rw_def)
  let ?X = "submit_write_operation src open_ret buffer length' submitted"
  have f: "fst ?X = src\<lparr>ring := io_uring_submit ?r4 submitted\<rparr>"
    by (subst res) (simp only: fst_conv)
  have ok: "snd (snd ?X) = (\<not> submitted <s 0)"
    by (subst res) (simp only: snd_conv)
  have ev: "fst (snd ?X) = ?evs"
    by (subst res) (simp only: fst_conv snd_conv)
  have rr: "ring (fst ?X) = io_uring_submit ?r4 submitted"
    unfolding f by simp
  have sq: "sqes (ring (fst ?X)) = (sqes ?r0)[?i := W, ?j := C]"
    unfolding rr by (rule s5)
  have tl: "sqe_tail (ring (fst ?X)) = sqe_tail ?r0 + 2"
    unfolding rr by (rule t5)
  have kt: "sq_ktail (ring (fst ?X)) = sqe_tail ?r0 + 2"
    unfolding rr by (rule k5)
  have w': "sqes (ring (fst ?X)) ! ?i = W" unfolding sq by (rule w)
  have c': "sqes (ring (fst ?X)) ! ?j = C" unfolding sq by (rule c)
  show ?thesis
    unfolding Let_def w' c' tl kt ok ev using Wf Cf by simp
qed

subsection \<open>What a successful submit queues\<close>

text \<open>
  X1: with two free slots on the eight-slot ring (and \<open>open\<close> successful),
  \<open>submit_write_operation\<close> queues two entries in consecutive slots: the write, from
  the buffer at offset 0, tagged with the buffer's address and carrying
  \<open>IOSQE_IO_LINK\<close>, and right after it the close of the same descriptor, tagged with
  \<open>GINT_TO_POINTER(fd)\<close> and carrying no flag.  It returns \<open>TRUE\<close> exactly when
  \<open>io_uring_submit\<close> does not fail.
\<close>

theorem submit_queues_linked_write_then_close:
  assumes wf: "sq_wf (ring src)" and e: "sq_ring_entries (ring src) = 8"
    and free: "sq_pending (ring src) + 2 \<le> 8" and fd: "\<not> open_ret <s 0"
  shows "(let r' = ring (fst (submit_write_operation src open_ret buffer length' submitted));
             w = sqes r' ! unat (sqe_tail (ring src) AND 7);
             c = sqes r' ! unat ((sqe_tail (ring src) + 1) AND 7)
         in opcode w = IORING_OP_WRITE \<and> sqe_flags w = IOSQE_IO_LINK \<and> sqe_fd w = open_ret
            \<and> addr w = buffer \<and> len w = ucast length' \<and> off w = 0 \<and> sqe_user_data w = buffer
            \<and> opcode c = IORING_OP_CLOSE \<and> sqe_flags c = 0 \<and> sqe_fd c = open_ret
            \<and> sqe_user_data c = GINT_TO_POINTER open_ret
            \<and> sqe_tail r' = sqe_tail (ring src) + 2
            \<and> snd (snd (submit_write_operation src open_ret buffer length' submitted))
                = (\<not> submitted <s 0))"
  using submit_two_slots [OF assms, of buffer length' submitted]
  by (simp add: Let_def)

theorem submit_queues_linked_write_then_close_witness:
  "sq_wf (ring fresh_source) \<and> sq_ring_entries (ring fresh_source) = 8
   \<and> sq_pending (ring fresh_source) + 2 \<le> 8 \<and> \<not> (5 :: gint) <s 0
   \<and> (let r' = ring (fst (submit_write_operation fresh_source 5 buffer_low 232 2));
            w = sqes r' ! unat (sqe_tail (ring fresh_source) AND 7);
            c = sqes r' ! unat ((sqe_tail (ring fresh_source) + 1) AND 7)
        in opcode w = IORING_OP_WRITE \<and> sqe_flags w = IOSQE_IO_LINK \<and> sqe_fd w = 5
           \<and> addr w = buffer_low \<and> len w = ucast (232 :: 64 word) \<and> off w = 0
           \<and> sqe_user_data w = buffer_low
           \<and> opcode c = IORING_OP_CLOSE \<and> sqe_flags c = 0 \<and> sqe_fd c = 5
           \<and> sqe_user_data c = GINT_TO_POINTER 5
           \<and> sqe_tail r' = sqe_tail (ring fresh_source) + 2
           \<and> snd (snd (submit_write_operation fresh_source 5 buffer_low 232 2))
               = (\<not> (2 :: gint) <s 0))"
proof -
  have r: "ring fresh_source = fresh_ring"
    by (simp add: fresh_source_def io_uring_source_new_def g_source_new_def word_sless_alt)
  have h1: "sq_wf (ring fresh_source)"
    by (simp add: r sq_wf_def fresh_ring_def)
  have h2: "sq_ring_entries (ring fresh_source) = 8"
    by (simp add: r fresh_ring_def)
  have h3: "sq_pending (ring fresh_source) + 2 \<le> 8"
    by (simp add: r sq_pending_def fresh_ring_def)
  have h4: "\<not> (5 :: gint) <s 0" by (simp add: word_sless_alt)
  show ?thesis
    using h1 h2 h3 h4
      submit_queues_linked_write_then_close [OF h1 h2 h3 h4, of buffer_low 232 2]
    by blast
qed

subsection \<open>Submitting to a full ring\<close>

text \<open>
  X2: when the eight-slot submission ring has no free slot (and \<open>open\<close> succeeded),
  \<open>submit_write_operation\<close> reports the failure to get an entry, closes the
  descriptor, frees its copy of the data and returns \<open>FALSE\<close>, and the source with its
  rings is exactly what it was.  Once the kernel has taken two or more entries off the
  ring, a further submit (with \<open>io_uring_submit\<close> not failing) queues the linked write
  and the close in the two next slots, publishes them, closes nothing itself and returns
  \<open>TRUE\<close>.
\<close>

theorem submit_full_ring_fails_two_drained_succeeds:
  assumes "sq_wf (ring src)" and "sq_ring_entries (ring src) = 8" and "sq_full (ring src)"
    and "\<not> open_ret <s 0"
  shows "submit_write_operation src open_ret buffer length' submitted =
           (src, [Print_opening open_ret, G_strdup buffer, Printerr_get_sqe_failed,
                  Close_fd open_ret, G_free buffer], False)
     \<and> (2 \<le> n \<and> n \<le> 8 \<and> \<not> submitted <s 0 \<longrightarrow>
          (let X = submit_write_operation (src\<lparr>ring := kernel_consume n (ring src)\<rparr>)
                     open_ret buffer length' submitted;
               r' = ring (fst X);
               w = sqes r' ! unat (sqe_tail (ring src) AND 7);
               c = sqes r' ! unat ((sqe_tail (ring src) + 1) AND 7)
           in snd (snd X) = True
              \<and> fst (snd X) = [Print_opening open_ret, G_strdup buffer,
                                Print_prepared length', Print_submitted submitted]
              \<and> opcode w = IORING_OP_WRITE \<and> sqe_flags w = IOSQE_IO_LINK
              \<and> sqe_fd w = open_ret \<and> addr w = buffer \<and> len w = ucast length'
              \<and> sqe_user_data w = buffer
              \<and> opcode c = IORING_OP_CLOSE \<and> sqe_fd c = open_ret
              \<and> sqe_user_data c = GINT_TO_POINTER open_ret
              \<and> sqe_tail r' = sqe_tail (ring src) + 2
              \<and> sq_ktail r' = sqe_tail (ring src) + 2))"
proof (intro conjI impI)
  show "submit_write_operation src open_ret buffer length' submitted =
           (src, [Print_opening open_ret, G_strdup buffer, Printerr_get_sqe_failed,
                  Close_fd open_ret, G_free buffer], False)"
    using get_sqe_full [OF assms(1,3)] assms(4) by (rule submit_no_slot)
next
  assume h: "2 \<le> n \<and> n \<le> 8 \<and> \<not> submitted <s 0"
  let ?src = "src\<lparr>ring := kernel_consume n (ring src)\<rparr>"
  have n2: "2 \<le> unat n" using h by (simp add: word_le_nat_alt)
  have n0: "0 < n" using n2 by (simp add: word_less_nat_alt)
  have n8: "n \<le> sq_ring_entries (ring src)" using h assms(2) by simp
  have wf: "sq_wf (ring ?src)"
    using assms(1,3) n0 n8 by (simp add: sq_wf_consume)
  have e: "sq_ring_entries (ring ?src) = 8"
    using assms(2) by (simp add: kernel_consume_def)
  have "sq_pending (kernel_consume n (ring src)) = unat (sq_ring_entries (ring src)) - unat n"
    using assms(3) n0 n8 by (rule pending_after_consume(1))
  then have free: "sq_pending (ring ?src) + 2 \<le> 8"
    using n2 assms(2) by simp
  have t: "sqe_tail (ring ?src) = sqe_tail (ring src)"
    by (simp add: kernel_consume_def)
  show "(let X = submit_write_operation ?src open_ret buffer length' submitted;
               r' = ring (fst X);
               w = sqes r' ! unat (sqe_tail (ring src) AND 7);
               c = sqes r' ! unat ((sqe_tail (ring src) + 1) AND 7)
           in snd (snd X) = True
              \<and> fst (snd X) = [Print_opening open_ret, G_strdup buffer,
                                Print_prepared length', Print_submitted submitted]
              \<and> opcode w = IORING_OP_WRITE \<and> sqe_flags w = IOSQE_IO_LINK
              \<and> sqe_fd w = open_ret \<and> addr w = buffer \<and> len w = ucast length'
              \<and> sqe_user_data w = buffer
              \<and> opcode c = IORING_OP_CLOSE \<and> sqe_fd c = open_ret
              \<and> sqe_user_data c = GINT_TO_POINTER open_ret
              \<and> sqe_tail r' = sqe_tail (ring src) + 2
              \<and> sq_ktail r' = sqe_tail (ring src) + 2)"
    using submit_two_slots [OF wf e free assms(4), of buffer length' submitted] h
    unfolding t by (simp add: Let_def)
qed

theorem submit_full_ring_fails_two_drained_succeeds_witness:
  "sq_wf (ring full_source) \<and> sq_ring_entries (ring full_source) = 8
   \<and> sq_full (ring full_source) \<and> \<not> (5 :: gint) <s 0
   \<and> (2 :: guint) \<le> 2 \<and> (2 :: guint) \<le> 8 \<and> \<not> (2 :: gint) <s 0
   \<and> submit_write_operation full_source 5 buffer_low 232 2 =
         (full_source, [Print_opening 5, G_strdup buffer_low, Printerr_get_sqe_failed,
                        Close_fd 5, G_free buffer_low], False)
   \<and> (let X = submit_write_operation
                 (full_source\<lparr>ring := kernel_consume 2 (ring full_source)\<rparr>)
                 5 buffer_low 232 2
       in snd (snd X) = True
          \<and> fst (snd X) = [Print_opening 5, G_strdup buffer_low, Print_prepared 232,
                            Print_submitted 2]
          \<and> sqe_tail (ring (fst X)) = sqe_tail (ring full_source) + 2)"
proof -
  have r: "ring full_source = fresh_ring\<lparr>sqe_tail := 8, sq_ktail := 8\<rparr>"
    by (simp add: full_source_def io_uring_source_new_def g_source_new_def word_sless_alt)
  have h1: "sq_wf (ring full_source)"
    by (simp add: r sq_wf_def fresh_ring_def)
  have h2: "sq_ring_entries (ring full_source) = 8"
    by (simp add: r fresh_ring_def)
  have h3: "sq_full (ring full_source)"
    by (simp add: r sq_full_def sq_pending_def fresh_ring_def)
  have h4: "\<not> (5 :: gint) <s 0" by (simp add: word_sless_alt)
  have h5: "(2 :: guint) \<le> 2 \<and> (2 :: guint) \<le> 8 \<and> \<not> (2 :: gint) <s 0"
    by (simp add: word_sless_alt)
  show ?thesis
    using h1 h2 h3 h4 h5
      submit_full_ring_fails_two_drained_succeeds [OF h1 h2 h3 h4, of buffer_low 232 2 2]
    by (simp add: Let_def)
qed


subsection \<open>Failing to set up the ring\<close>

text \<open>
  C7: when \<open>io_uring_queue_init_params\<close> fails (a negative return value, as on a
  kernel without io_uring), \<open>io_uring_source_new\<close> reports the error, drops the only
  reference to the source it was building, which releases it, and returns \<open>NULL\<close>;
  \<open>main\<close> then exits with status 1 without attaching a source or running the loop.
  When the call succeeds, construction returns a source.
\<close>

theorem ring_init_failure_at_construction:
  "(init_ret <s 0 \<longrightarrow>
      io_uring_source_new init_ret kring =
        (None, [G_source_new, Printerr_init_failed (- init_ret), G_source_unref,
                Print_finalizing, Io_uring_queue_exit])
      \<and> fst (g_source_unref g_source_new) = None
      \<and> main init_ret kring open_ret buffer length' submitted =
        (Some 1, [G_main_loop_new, G_source_new, Printerr_init_failed (- init_ret),
                  G_source_unref, Print_finalizing, Io_uring_queue_exit,
                  Printerr_create_failed, G_main_loop_unref])
      \<and> G_source_attach \<notin> set (snd (main init_ret kring open_ret buffer length' submitted))
      \<and> G_main_loop_run \<notin> set (snd (main init_ret kring open_ret buffer length' submitted)))
   \<and> (\<not> init_ret <s 0 \<longrightarrow> fst (io_uring_source_new init_ret kring) \<noteq> None)"
  by (simp add: io_uring_source_new_def main_def g_source_unref_def g_source_new_def
      io_uring_source_finalize_def Let_def)

theorem ring_init_failure_at_construction_witness:
  "(- 38 :: gint) <s 0 \<and> \<not> (0 :: gint) <s 0
   \<and> io_uring_source_new (- 38) fresh_ring =
        (None, [G_source_new, Printerr_init_failed 38, G_source_unref,
                Print_finalizing, Io_uring_queue_exit])
   \<and> fst (main (- 38) fresh_ring 5 buffer_low 232 2) = Some 1
   \<and> G_main_loop_run \<notin> set (snd (main (- 38) fresh_ring 5 buffer_low 232 2))
   \<and> fst (io_uring_source_new 0 fresh_ring) \<noteq> None"
proof -
  have h1: "(- 38 :: gint) <s 0" by (simp add: word_sless_alt)
  have h2: "\<not> (0 :: gint) <s 0" by (simp add: word_sless_alt)
  show ?thesis
    using h1 h2
      ring_init_failure_at_construction [of "- 38" fresh_ring 5 buffer_low 232 2]
      ring_init_failure_at_construction [of 0 fresh_ring 5 buffer_low 232 2]
    by simp
qed

section \<open>Properties of the dispatch order\<close>

lemma map_fst_attached: "map fst (attached srcs) = [0..<length srcs]"
  by (simp add: attached_def)

lemma set_dispatch_order:
  "set (dispatch_order srcs) = {p \<in> set (attached srcs). ready (snd p)}"
  by (simp add: dispatch_order_def)

lemma distinct_positions: "distinct (map fst (dispatch_order srcs))"
proof -
  have "distinct (map fst (attached srcs))"
    by (simp add: map_fst_attached)
  then have "distinct (map fst (filter (\<lambda>p. ready (snd p)) (attached srcs)))"
    by (rule distinct_map_filter)
  then show ?thesis
    by (simp add: dispatch_order_def distinct_map)
qed

lemma sorted_dispatch_keys: "sorted (map dispatch_key (dispatch_order srcs))"
  by (simp add: dispatch_order_def)

lemma dispatch_order_pair:
  assumes "a < b" and "b < length (dispatch_order srcs)"
  shows "priority (snd (dispatch_order srcs ! a)) \<le> priority (snd (dispatch_order srcs ! b))"
    and "priority (snd (dispatch_order srcs ! a)) = priority (snd (dispatch_order srcs ! b))
         \<Longrightarrow> fst (dispatch_order srcs ! a) < fst (dispatch_order srcs ! b)"
proof -
  let ?ys = "dispatch_order srcs"
  have la: "a < length ?ys" using assms by simp
  have "map dispatch_key ?ys ! a \<le> map dispatch_key ?ys ! b"
    using sorted_dispatch_keys assms by (simp add: sorted_iff_nth_mono del: nth_map)
  then have k: "dispatch_key (?ys ! a) \<le> dispatch_key (?ys ! b)"
    using la assms(2) by simp
  then show "priority (snd (?ys ! a)) \<le> priority (snd (?ys ! b))"
    by (auto simp add: dispatch_key_def less_eq_prod_def)
  have "map fst ?ys ! a \<noteq> map fst ?ys ! b"
    using distinct_positions [of srcs] la assms by (simp add: nth_eq_iff_index_eq del: nth_map)
  then have ne: "fst (?ys ! a) \<noteq> fst (?ys ! b)"
    using la assms(2) by simp
  assume "priority (snd (?ys ! a)) = priority (snd (?ys ! b))"
  then have "fst (?ys ! a) \<le> fst (?ys ! b)"
    using k by (auto simp add: dispatch_key_def less_eq_prod_def)
  then show "fst (?ys ! a) < fst (?ys ! b)"
    using ne by simp
qed

lemma attached_nth:
  "p \<in> set (attached srcs) \<Longrightarrow> fst p < length srcs \<and> snd p = srcs ! fst p"
  by (auto simp add: attached_def set_zip)

text \<open>
  C5: in one iteration, the sources that are ready are dispatched in ascending order of
  their priority value, and of two ready sources with the same priority the one attached
  first is dispatched first.  Every ready source is dispatched, once, and nothing else is.
  Positions are positions in the attachment order.
\<close>

theorem dispatch_order_priority_then_attachment:
  "(\<forall>a b. a < b \<and> b < length (dispatch_order srcs) \<longrightarrow>
      priority (snd (dispatch_order srcs ! a)) \<le> priority (snd (dispatch_order srcs ! b))
      \<and> (priority (snd (dispatch_order srcs ! a)) = priority (snd (dispatch_order srcs ! b))
           \<longrightarrow> fst (dispatch_order srcs ! a) < fst (dispatch_order srcs ! b)))
   \<and> set (dispatch_order srcs) = {p \<in> set (attached srcs). ready (snd p)}
   \<and> distinct (map fst (dispatch_order srcs))
   \<and> (\<forall>p \<in> set (attached srcs). fst p < length srcs \<and> snd p = srcs ! fst p)"
proof (intro conjI allI impI ballI)
  fix a b
  assume h: "a < b \<and> b < length (dispatch_order srcs)"
  then show "priority (snd (dispatch_order srcs ! a))
             \<le> priority (snd (dispatch_order srcs ! b))"
    by (simp add: dispatch_order_pair(1))
  assume "priority (snd (dispatch_order srcs ! a)) = priority (snd (dispatch_order srcs ! b))"
  then show "fst (dispatch_order srcs ! a) < fst (dispatch_order srcs ! b)"
    using h by (simp add: dispatch_order_pair(2))
next
  show "set (dispatch_order srcs) = {p \<in> set (attached srcs). ready (snd p)}"
    by (rule set_dispatch_order)
next
  show "distinct (map fst (dispatch_order srcs))"
    by (rule distinct_positions)
next
  fix p
  assume "p \<in> set (attached srcs)"
  then show "fst p < length srcs" and "snd p = srcs ! fst p"
    by (simp_all add: attached_nth)
qed

theorem dispatch_order_priority_then_attachment_witness:
  "(0 :: nat) < 1 \<and> 1 < length (dispatch_order equal_priority_sources)
   \<and> priority (snd (dispatch_order equal_priority_sources ! 0))
       = priority (snd (dispatch_order equal_priority_sources ! 1))
   \<and> fst (dispatch_order equal_priority_sources ! 0)
       < fst (dispatch_order equal_priority_sources ! 1)
   \<and> (0 :: nat) < 4 \<and> 4 < length (dispatch_order priority_example_sources)
   \<and> priority (snd (dispatch_order priority_example_sources ! 0))
       \<le> priority (snd (dispatch_order priority_example_sources ! 4))"
proof -
  have h1: "(0 :: nat) < 1 \<and> 1 < length (dispatch_order equal_priority_sources)"
    by code_simp
  have h2: "priority (snd (dispatch_order equal_priority_sources ! 0))
       = priority (snd (dispatch_order equal_priority_sources ! 1))"
    by code_simp
  have h3: "(0 :: nat) < 4 \<and> 4 < length (dispatch_order priority_example_sources)"
    by code_simp
  show ?thesis
    using h1 h2 h3 dispatch_order_priority_then_attachment [of equal_priority_sources]
      dispatch_order_priority_then_attachment [of priority_example_sources]
    by blast
qed

text \<open>
  The order priority_example.c prints as expected, and the order of the spec's test with
  three sources of equal priority.
\<close>

lemma priority_example_order:
  "map (src_name \<circ> snd) (dispatch_order priority_example_sources)
     = [''HIGH'', ''DEFAULT'', ''HIGH_IDLE'', ''DEFAULT_IDLE'', ''LOW'']"
  by code_simp

lemma equal_priority_order:
  "map (src_name \<circ> snd) (dispatch_order equal_priority_sources) = [''A'', ''B'', ''C'']"
  by code_simp

section \<open>Properties of the thread-default stack\<close>

lemma current_push: "current t (push_default t ctx st) = ctx"
  by (simp add: current_def push_default_def)

lemma pop_push: "pop_default t ctx (push_default t ctx st) = Inr st"
  by (simp add: pop_default_def push_default_def)

lemma balanced_append:
  "balanced ops opened \<Longrightarrow> balanced ops2 rest \<Longrightarrow> balanced (ops @ ops2) (opened @ rest)"
  by (induction ops opened rule: balanced.induct) simp_all

lemma set_stack_same: "stacks st t = cs \<Longrightarrow> set_stack t cs st = st"
  by (auto simp add: set_stack_def)

lemma set_stack_twice: "set_stack t cs (set_stack t ds st) = set_stack t cs st"
  by (simp add: set_stack_def)

lemma stacks_set_stack: "stacks (set_stack t cs st) t = cs"
  by (simp add: set_stack_def)

lemma push_as_set_stack: "push_default t c st = set_stack t (c # stacks st t) st"
  by (simp add: push_default_def set_stack_def)

lemma pop_as_set_stack: "stacks st t = c # cs \<Longrightarrow> pop_default t c st = Inr (set_stack t cs st)"
  by (simp add: pop_default_def set_stack_def)

lemma run_balanced:
  "balanced ops opened \<Longrightarrow> stacks st t = opened @ base \<Longrightarrow>
     run_ops t ops st = Inr (set_stack t base st)"
proof (induction ops opened arbitrary: st rule: balanced.induct)
  case (1 opened)
  then show ?case by (simp add: set_stack_same)
next
  case (2 c ops opened)
  have b: "balanced ops (c # opened)"
    using "2.prems"(1) by simp
  have s: "stacks (push_default t c st) t = (c # opened) @ base"
    using "2.prems"(2) by (simp add: push_default_def)
  have "run_ops t ops (push_default t c st) = Inr (set_stack t base (push_default t c st))"
    by (rule "2.IH" [OF b s])
  then show ?case by (simp add: push_as_set_stack set_stack_twice)
next
  case (3 c ops)
  then show ?case by simp
next
  case (4 c ops d opened)
  have cd: "c = d" and b: "balanced ops opened"
    using "4.prems"(1) by simp_all
  have p: "pop_default t c st = Inr (set_stack t (opened @ base) st)"
    using "4.prems"(2) cd by (simp add: pop_as_set_stack)
  have s: "stacks (set_stack t (opened @ base) st) t = opened @ base"
    by (rule stacks_set_stack)
  have "run_ops t ops (set_stack t (opened @ base) st)
          = Inr (set_stack t base (set_stack t (opened @ base) st))"
    by (rule "4.IH" [OF b s])
  then show ?case using p by (simp add: set_stack_twice)
qed

text \<open>
  C8: for any context and any thread, right after the thread pushes the context its
  current default is that context (so \<open>context_owner_thread\<close> prints a match), and the
  matching pop gives back the state before the push, also with balanced pushes and pops
  in between: the thread's current default is again what it was, the top of its stack or
  the process-wide default when its stack is empty.
\<close>

theorem push_current_pop_round_trip:
  "current t (push_default t ctx st) = ctx
   \<and> context_owner_thread_match t ctx st
   \<and> pop_default t ctx (push_default t ctx st) = Inr st
   \<and> (balanced ops [] \<longrightarrow>
        (\<exists>st'. run_ops t (Push ctx # ops @ [Pop ctx]) st = Inr st'
               \<and> current t st' = current t st \<and> st' = st))
   \<and> current t st = (case stacks st t of [] \<Rightarrow> process_default st | c # cs \<Rightarrow> c)"
proof (intro conjI impI)
  assume b: "balanced ops []"
  have "balanced (ops @ [Pop ctx]) ([] @ [ctx])"
    using b by (rule balanced_append) simp
  then have b': "balanced (ops @ [Pop ctx]) [ctx]" by simp
  have s: "stacks (push_default t ctx st) t = [ctx] @ stacks st t"
    by (simp add: push_default_def)
  have "run_ops t (ops @ [Pop ctx]) (push_default t ctx st) =
      Inr (set_stack t (stacks st t) (push_default t ctx st))"
    using b' s by (rule run_balanced)
  then have "run_ops t (Push ctx # ops @ [Pop ctx]) st = Inr st"
    by (simp add: push_as_set_stack set_stack_twice set_stack_same)
  then show "\<exists>st'. run_ops t (Push ctx # ops @ [Pop ctx]) st = Inr st'
               \<and> current t st' = current t st \<and> st' = st"
    by simp
qed (simp_all add: current_push pop_push context_owner_thread_match_def, simp add: current_def)

theorem push_current_pop_round_trip_witness:
  "balanced [Push 8, Pop 8] []
   \<and> current 1 (push_default 1 9 example_defaults) = 9
   \<and> current 2 (push_default 2 9 example_defaults) = 9
   \<and> (\<exists>st'. run_ops 1 (Push 9 # [Push 8, Pop 8] @ [Pop 9]) example_defaults = Inr st'
             \<and> current 1 st' = current 1 example_defaults)
   \<and> current 1 example_defaults = 7 \<and> current 2 example_defaults = 0"
proof -
  have h: "balanced [Push 8, Pop 8] []" by simp
  have c1: "current 1 example_defaults = 7" by (simp add: current_def example_defaults_def)
  have c2: "current 2 example_defaults = 0" by (simp add: current_def example_defaults_def)
  show ?thesis
    using h c1 c2 push_current_pop_round_trip [of 1 9 example_defaults "[Push 8, Pop 8]"]
      push_current_pop_round_trip [of 2 9 example_defaults "[Push 8, Pop 8]"]
    by blast
qed

end
